theory Spec2Isabelle
  imports Main "HOL-Library.AList" "HOL-Library.Multiset"
begin

section \<open>Python values, exceptions and the driver\<close>

text \<open>
  Values that travel through the exception arguments of the driver and through the error
  slot of the pairs \<open>(json_data, error)\<close> that the query runner returns.
\<close>

datatype pyval = PNone | PInt int | PStr string | PTuple "pyval list"

text \<open>
  The exceptions of the module. \<open>PymssqlError args\<close> is \<open>pymssql.Error\<close> (or a subclass)
  with its \<open>e.args\<close>; \<open>Exception msg\<close> is the plain \<open>Exception(msg)\<close> the module raises
  itself; \<open>OtherException\<close> is any other class derived from \<open>Exception\<close>. Only
  \<open>KeyboardInterrupt\<close> is outside the class \<open>Exception\<close>.
\<close>

datatype exn =
    PymssqlError "pyval list"
  | KeyboardInterrupt
  | Exception string
  | IndexError
  | TypeError
  | KeyError string
  | UnboundLocalError string
  | OtherException string

fun is_Exception :: "exn \<Rightarrow> bool" where
  "is_Exception KeyboardInterrupt = False"
| "is_Exception e = True"

text \<open>
  A JSON scalar (numbers are integers here), and a value fetched from the server: either
  such a scalar or an object that \<open>json.dumps\<close> hands to the encoder's \<open>default\<close> (a
  \<open>uuid.UUID\<close>, kept by its string form, or an instance of another class, kept by the
  class name).
\<close>

datatype jcell = JNull | JBool bool | JNum int | JStr string

datatype pyobject = UUID string | Instance string

datatype cell = Native jcell | Object pyobject

text \<open>Python 2 text: \<open>unicode\<close> or \<open>str\<close> (bytes).\<close>

datatype pystring = Unicode string | Bytes string

text \<open>
  Modelled from the spec: the constants \<open>TYPE_STRING\<close>, \<open>TYPE_BOOLEAN\<close>, \<open>TYPE_FLOAT\<close> and
  \<open>TYPE_DATETIME\<close> come from \<open>redash.query_runner\<close>, which is not among the sources; they
  are the named members of the portable type enum. The fifth member, UNKNOWN, is the
  \<open>None\<close> that \<open>types_map.get(code, None)\<close> returns, so a column type is a
  \<open>portable_type option\<close>.
\<close>

datatype portable_type = TYPE_STRING | TYPE_BOOLEAN | TYPE_FLOAT | TYPE_DATETIME

abbreviation UNKNOWN :: "portable_type option" where
  "UNKNOWN \<equiv> None"

definition types_map :: "(int \<times> portable_type) list" where
  "types_map =
     [(1, TYPE_STRING),
      (2, TYPE_BOOLEAN),
      (3, TYPE_FLOAT),
      (4, TYPE_DATETIME),
      (5, TYPE_FLOAT)]"

text \<open>\<open>types_map.get(code, None)\<close>\<close>

definition types_map_get :: "int \<Rightarrow> portable_type option" where
  "types_map_get code = (case map_of types_map code of None \<Rightarrow> None | Some t \<Rightarrow> Some t)"

text \<open>
  The configuration, typed as \<open>configuration_schema\<close> declares it; a key that is absent is
  \<open>None\<close>.
\<close>

record configuration =
  conf_user :: "string option"
  conf_password :: "string option"
  conf_server :: "string option"
  conf_port :: "int option"
  conf_tds_version :: "string option"
  conf_charset :: "string option"
  conf_db :: "string option"
  conf_master_db :: "string option"
  conf_datasources_query :: "pystring option"

text \<open>\<open>self.configuration.get(key, default)\<close>\<close>

definition get_or :: "'a option \<Rightarrow> 'a \<Rightarrow> 'a" where
  "get_or v dflt = (case v of None \<Rightarrow> dflt | Some x \<Rightarrow> x)"

text \<open>The keyword arguments of \<open>pymssql.connect\<close>.\<close>

record connect_args =
  arg_server :: string
  arg_user :: string
  arg_password :: string
  arg_database :: jcell
  arg_tds_version :: string
  arg_charset :: string

text \<open>
  What a connection object of the driver does when the runner calls it: every call may
  raise; \<open>fetchall\<close> and \<open>description\<close> depend on the statement that was executed.
  A row is a tuple of values; a description entry is reduced to the two positions the
  runner reads, \<open>i[0]\<close> (the name) and \<open>i[1]\<close> (the type code).
\<close>

record connection =
  cursor_raises :: "exn option"
  execute_raises :: "string \<Rightarrow> exn option"
  fetchall :: "string \<Rightarrow> exn + cell list list"
  description :: "string \<Rightarrow> (string \<times> int) list option"
  cursor_close_raises :: "exn option"
  cancel_raises :: "exn option"
  close_raises :: "exn option"

text \<open>
  The runner (\<open>self\<close>) and its external collaborators: the driver's \<open>connect\<close>, the codec
  behind \<open>unicode.encode(charset)\<close>, and \<open>JSONEncoder.default\<close> of \<open>redash.utils\<close>, the
  parent of \<open>MSSQLJSONEncoder\<close>. They are parameters: every theorem below holds for all of
  them.
\<close>

record env =
  configuration :: configuration
  pymssql_connect :: "connect_args \<Rightarrow> exn + connection"
  encode :: "string \<Rightarrow> string \<Rightarrow> exn + string"
  JSONEncoder_default :: "pyobject \<Rightarrow> exn + jcell"

text \<open>
  What the outside world sees of a call, in order: connections opened (or refused),
  statements sent, \<open>cancel()\<close> and \<open>close()\<close> calls on a connection, and the records of
  \<open>logging.exception\<close>.
\<close>

datatype event =
    Connected connect_args
  | ConnectFailed connect_args
  | Executed string
  | Cancelled connect_args
  | Closed connect_args
  | Logged exn

section \<open>Result sets and JSON\<close>

record column =
  col_name :: string
  col_type :: "portable_type option"

text \<open>
  The dictionary \<open>{'columns': columns, 'rows': rows}\<close>; a row is a dictionary from column
  name to value, kept as an association list with distinct keys.
\<close>

record 'c result_set =
  columns :: "column list"
  rows :: "(string \<times> 'c) list list"

text \<open>
  Modelled from the spec: \<open>fetch_columns\<close> is inherited from \<open>BaseQueryRunner\<close>, which is
  not among the sources. The spec has one Column Descriptor \<open>{name, type}\<close> per driver
  column, in order.
\<close>

definition fetch_columns :: "(string \<times> portable_type option) list \<Rightarrow> column list" where
  "fetch_columns cols = map (\<lambda>(n, t). \<lparr>col_name = n, col_type = t\<rparr>) cols"

text \<open>\<open>dict(pairs)\<close>: a later pair replaces the value of an earlier one with the same key.\<close>

definition dict :: "('k \<times> 'v) list \<Rightarrow> ('k \<times> 'v) list" where
  "dict pairs = foldl (\<lambda>d (k, v). AList.update k v d) [] pairs"

text \<open>Running a fallible function over a list; the first exception ends it.\<close>

fun traverse :: "('a \<Rightarrow> exn + 'b) \<Rightarrow> 'a list \<Rightarrow> exn + 'b list" where
  "traverse f [] = Inr []"
| "traverse f (x # xs) =
     (case f x of
        Inl e \<Rightarrow> Inl e
      | Inr y \<Rightarrow> (case traverse f xs of Inl e \<Rightarrow> Inl e | Inr ys \<Rightarrow> Inr (y # ys)))"

text \<open>
  \<open>MSSQLJSONEncoder.default\<close>: a UUID is rendered by \<open>str\<close>, anything else goes to the
  parent class.
\<close>

definition MSSQLJSONEncoder_default :: "env \<Rightarrow> pyobject \<Rightarrow> exn + jcell" where
  "MSSQLJSONEncoder_default env obj =
     (case obj of
        UUID u \<Rightarrow> Inr (JStr u)
      | _ \<Rightarrow> JSONEncoder_default env obj)"

text \<open>
  \<open>json.dumps(data, cls=MSSQLJSONEncoder)\<close>. A JSON text is represented by the document it
  denotes, so that \<open>json.loads\<close> of it gives that document back; the encoder's \<open>default\<close>
  is called for exactly the values that are no JSON scalars.
\<close>

definition encode_cell :: "env \<Rightarrow> cell \<Rightarrow> exn + jcell" where
  "encode_cell env v =
     (case v of Native j \<Rightarrow> Inr j | Object obj \<Rightarrow> MSSQLJSONEncoder_default env obj)"

definition encode_item :: "env \<Rightarrow> string \<times> cell \<Rightarrow> exn + string \<times> jcell" where
  "encode_item env kv =
     (case encode_cell env (snd kv) of Inl e \<Rightarrow> Inl e | Inr j \<Rightarrow> Inr (fst kv, j))"

definition json_dumps :: "env \<Rightarrow> cell result_set \<Rightarrow> exn + jcell result_set" where
  "json_dumps env data =
     (case traverse (traverse (encode_item env)) (rows data) of
        Inl e \<Rightarrow> Inl e
      | Inr rs \<Rightarrow> Inr \<lparr>columns = columns data, rows = rs\<rparr>)"

text \<open>\<open>json.loads(s)\<close>: a \<open>TypeError\<close> when \<open>s\<close> is \<open>None\<close>.\<close>

definition json_loads :: "'a option \<Rightarrow> exn + 'a" where
  "json_loads s = (case s of None \<Rightarrow> Inl TypeError | Some doc \<Rightarrow> Inr doc)"

text \<open>A loaded document, seen again as input of \<open>json.dumps\<close>.\<close>

definition loaded :: "jcell result_set \<Rightarrow> cell result_set" where
  "loaded r = \<lparr>columns = columns r, rows = map (map (\<lambda>(k, j). (k, Native j))) (rows r)\<rparr>"

text \<open>\<open>str(n)\<close> for an integer.\<close>

fun str_nat :: "nat \<Rightarrow> string" where
  "str_nat n =
     (if n < 10 then [''0123456789'' ! n]
      else str_nat (n div 10) @ [''0123456789'' ! (n mod 10)])"

definition str_int :: "int \<Rightarrow> string" where
  "str_int i = (if i < 0 then CHR ''-'' # str_nat (nat (- i)) else str_nat (nat i))"

text \<open>Indexing \<open>v[i]\<close> for the values found in exception arguments.\<close>

definition py_getitem :: "pyval \<Rightarrow> nat \<Rightarrow> exn + pyval" where
  "py_getitem v i =
     (case v of
        PTuple xs \<Rightarrow> (if i < length xs then Inr (xs ! i) else Inl IndexError)
      | PStr s \<Rightarrow> (if i < length s then Inr (PStr [s ! i]) else Inl IndexError)
      | _ \<Rightarrow> Inl TypeError)"

section \<open>The single-target executor: \<open>run_query_on_datasource\<close>\<close>

text \<open>
  Lines 176 to 196: what runs in the \<open>try\<close> block once \<open>pymssql.connect\<close> has returned.
  The result is what the block leaves in \<open>(json_data, error)\<close>, or the exception that
  ended it.
\<close>

definition encode_query :: "env \<Rightarrow> string \<Rightarrow> pystring \<Rightarrow> exn + string" where
  "encode_query env charset query =
     (case query of Unicode q \<Rightarrow> encode env charset q | Bytes q \<Rightarrow> Inr q)"

definition build_result ::
  "env \<Rightarrow> (string \<times> int) list option \<Rightarrow> cell list list
     \<Rightarrow> exn + (jcell result_set option \<times> pyval)" where
  "build_result env descr data =
     (case descr of
        Some d \<Rightarrow>
          (let columns = fetch_columns (map (\<lambda>i. (fst i, types_map_get (snd i))) d);
               rows = map (\<lambda>row. dict (zip (map col_name columns) row)) data
           in case json_dumps env \<lparr>columns = columns, rows = rows\<rparr> of
                Inl e \<Rightarrow> Inl e
              | Inr json_data \<Rightarrow> Inr (Some json_data, PNone))
      | None \<Rightarrow> Inr (None, PStr ''No data was returned.''))"

definition run_statement ::
  "env \<Rightarrow> string \<Rightarrow> connection \<Rightarrow> pystring
     \<Rightarrow> (exn + (jcell result_set option \<times> pyval)) \<times> event list" where
  "run_statement env charset connection query =
     (case encode_query env charset query of
        Inl e \<Rightarrow> (Inl e, [])
      | Inr q \<Rightarrow>
     (case cursor_raises connection of
        Some e \<Rightarrow> (Inl e, [])
      | None \<Rightarrow>
     (case execute_raises connection q of
        Some e \<Rightarrow> (Inl e, [Executed q])
      | None \<Rightarrow>
     (case fetchall connection q of
        Inl e \<Rightarrow> (Inl e, [Executed q])
      | Inr data \<Rightarrow>
     (case build_result env (description connection q) data of
        Inl e \<Rightarrow> (Inl e, [Executed q])
      | Inr r \<Rightarrow>
     (case cursor_close_raises connection of
        Some e \<Rightarrow> (Inl e, [Executed q])
      | None \<Rightarrow> (Inr r, [Executed q])))))))"

text \<open>
  Lines 197 to 204, the handler of \<open>pymssql.Error\<close>: \<open>e.args[1]\<close>, and \<open>e.args[0][1]\<close> when
  that raises \<open>IndexError\<close>. An exception of the second lookup leaves the handler.
\<close>

definition pymssql_error_message :: "pyval list \<Rightarrow> exn + pyval" where
  "pymssql_error_message args =
     (if 1 < length args then Inr (args ! 1)
      else (case args of [] \<Rightarrow> Inl IndexError | a # _ \<Rightarrow> py_getitem a 1))"

text \<open>
  Lines 197 to 210, the \<open>except\<close> clauses, applied to the outcome of the \<open>try\<close> block.
  \<open>connection\<close> is the local variable: \<open>None\<close> while it is unbound (the function never
  assigns it before \<open>pymssql.connect\<close> returns), so \<open>connection.cancel()\<close> on the unbound
  variable raises \<open>UnboundLocalError\<close>.
\<close>

definition handle_exception ::
  "connect_args \<Rightarrow> connection option \<Rightarrow> exn
     \<Rightarrow> (exn + (jcell result_set option \<times> pyval)) \<times> event list" where
  "handle_exception args connection e =
     (case e of
        PymssqlError eargs \<Rightarrow>
          (case pymssql_error_message eargs of
             Inl e' \<Rightarrow> (Inl e', [])
           | Inr error \<Rightarrow> (Inr (None, error), []))
      | KeyboardInterrupt \<Rightarrow>
          (case connection of
             None \<Rightarrow> (Inl (UnboundLocalError ''connection''), [])
           | Some c \<Rightarrow>
               (case cancel_raises c of
                  Some e' \<Rightarrow> (Inl e', [Cancelled args])
                | None \<Rightarrow> (Inr (None, PStr ''Query cancelled by user.''), [Cancelled args])))
      | _ \<Rightarrow> (Inl e, []))"

text \<open>
  Lines 211 to 213, the \<open>finally\<close> clause, applied to what the \<open>try\<close> statement has reached:
  \<open>if connection:\<close> reads the local variable, which raises \<open>UnboundLocalError\<close> while it is
  unbound; a connection object is true (the driver's class defines neither \<open>__nonzero__\<close>
  nor \<open>__len__\<close>), so \<open>close()\<close> is called, and an exception of \<open>close()\<close> replaces the
  pending outcome.
\<close>

definition finally_close ::
  "connect_args \<Rightarrow> connection option \<Rightarrow> (exn + 'a) \<Rightarrow> (exn + 'a) \<times> event list" where
  "finally_close args connection pending =
     (case connection of
        None \<Rightarrow> (Inl (UnboundLocalError ''connection''), [])
      | Some c \<Rightarrow>
          (case close_raises c of
             Some e \<Rightarrow> (Inl e, [Closed args])
           | None \<Rightarrow> (pending, [Closed args])))"

text \<open>Lines 164 to 174: the arguments of \<open>pymssql.connect\<close>.\<close>

definition connection_arguments :: "env \<Rightarrow> jcell \<Rightarrow> connect_args" where
  "connection_arguments env db =
     (let server = get_or (conf_server (configuration env)) [];
          user = get_or (conf_user (configuration env)) [];
          password = get_or (conf_password (configuration env)) [];
          port = get_or (conf_port (configuration env)) 1433;
          tds_version = get_or (conf_tds_version (configuration env)) ''4.2'';
          charset = get_or (conf_charset (configuration env)) ''ISO-8859-1'';
          server = (if port \<noteq> 1433 then server @ '':'' @ str_int port else server)
      in \<lparr>arg_server = server, arg_user = user, arg_password = password,
          arg_database = db, arg_tds_version = tds_version, arg_charset = charset\<rparr>)"

text \<open>
  The whole function. The \<open>user\<close> argument is overwritten at line 165 before it is read.
\<close>

definition run_query_on_datasource ::
  "env \<Rightarrow> pystring \<Rightarrow> 'u \<Rightarrow> jcell
     \<Rightarrow> (exn + (jcell result_set option \<times> pyval)) \<times> event list" where
  "run_query_on_datasource env query user db =
     (let args = connection_arguments env db;
          (connection, (body, ev1)) =
            (case pymssql_connect env args of
               Inl e \<Rightarrow> (None, (Inl e, [ConnectFailed args]))
             | Inr c \<Rightarrow>
                 (Some c,
                  (let (r, evs) = run_statement env (arg_charset args) c query
                   in (r, Connected args # evs))));
          (handled, ev2) =
            (case body of
               Inl e \<Rightarrow> handle_exception args connection e
             | Inr r \<Rightarrow> (Inr r, []));
          (outcome, ev3) = finally_close args connection handled
      in (outcome, ev1 @ ev2 @ ev3))"

section \<open>The fan-out aggregator: \<open>run_query\<close>\<close>

text \<open>
  The local variables that the loop of \<open>run_query\<close> changes. \<open>results\<close> is \<open>None\<close> while the
  variable is unbound: nothing assigns it before the loop.
\<close>

record loop_state =
  total_rows :: "(string \<times> jcell) list list"
  results :: "jcell result_set option"
  error :: pyval

text \<open>
  Lines 150 to 156, one iteration. The \<open>try\<close> body stops at the first exception, with the
  assignments made so far: the tuple assignment of line 152 binds \<open>error\<close> as soon as the
  call returns, before \<open>json.loads\<close> runs. \<open>except Exception\<close> logs an exception of class
  \<open>Exception\<close> and lets the loop go on; any other exception leaves \<open>run_query\<close>.
\<close>

definition fan_out_try ::
  "env \<Rightarrow> pystring \<Rightarrow> 'u \<Rightarrow> (string \<times> jcell) list \<Rightarrow> loop_state
     \<Rightarrow> exn option \<times> loop_state \<times> event list" where
  "fan_out_try env query user d st =
     (case map_of d ''datasource'' of
        None \<Rightarrow> (Some (KeyError ''datasource''), st, [])
      | Some datasource \<Rightarrow>
          (case run_query_on_datasource env query user datasource of
             (Inl e, evs) \<Rightarrow> (Some e, st, evs)
           | (Inr (results_json, err), evs) \<Rightarrow>
               (case json_loads results_json of
                  Inl e \<Rightarrow> (Some e, st\<lparr>error := err\<rparr>, evs)
                | Inr res \<Rightarrow>
                    (None,
                     st\<lparr>error := err, results := Some res,
                        total_rows := total_rows st @ rows res\<rparr>,
                     evs))))"

definition fan_out_step ::
  "env \<Rightarrow> pystring \<Rightarrow> 'u \<Rightarrow> (string \<times> jcell) list \<Rightarrow> loop_state
     \<Rightarrow> (exn + loop_state) \<times> event list" where
  "fan_out_step env query user d st =
     (case fan_out_try env query user d st of
        (None, st', evs) \<Rightarrow> (Inr st', evs)
      | (Some e, st', evs) \<Rightarrow>
          (if is_Exception e then (Inr st', evs @ [Logged e]) else (Inl e, evs)))"

text \<open>Lines 149 to 156, the loop over \<open>datasources['rows']\<close>.\<close>

fun fan_out ::
  "env \<Rightarrow> pystring \<Rightarrow> 'u \<Rightarrow> (string \<times> jcell) list list \<Rightarrow> loop_state
     \<Rightarrow> (exn + loop_state) \<times> event list" where
  "fan_out env query user [] st = (Inr st, [])"
| "fan_out env query user (d # ds) st =
     (case fan_out_step env query user d st of
        (Inl e, evs) \<Rightarrow> (Inl e, evs)
      | (Inr st', evs) \<Rightarrow>
          (case fan_out env query user ds st' of (r, evs') \<Rightarrow> (r, evs @ evs')))"

text \<open>Lines 158 to 160, after the loop: \<open>results['rows']\<close> reads the local variable.\<close>

definition aggregate ::
  "env \<Rightarrow> loop_state \<Rightarrow> exn + (jcell result_set \<times> pyval)" where
  "aggregate env st =
     (case results st of
        None \<Rightarrow> Inl (UnboundLocalError ''results'')
      | Some res \<Rightarrow>
          (case json_dumps env (loaded (res\<lparr>rows := total_rows st\<rparr>)) of
             Inl e \<Rightarrow> Inl e
           | Inr json_data \<Rightarrow> Inr (json_data, error st)))"

text \<open>The two arguments of the discovery call at line 141.\<close>

definition discovery_query :: "env \<Rightarrow> pystring" where
  "discovery_query env = get_or (conf_datasources_query (configuration env)) (Bytes [])"

definition master_database :: "env \<Rightarrow> jcell" where
  "master_database env = JStr (get_or (conf_master_db (configuration env)) [])"

definition run_query ::
  "env \<Rightarrow> pystring \<Rightarrow> 'u \<Rightarrow> (exn + (jcell result_set \<times> pyval)) \<times> event list" where
  "run_query env query user =
     (case run_query_on_datasource env (discovery_query env) user (master_database env) of
        (Inl e, ev0) \<Rightarrow> (Inl e, ev0)
      | (Inr (datasources_json, err), ev0) \<Rightarrow>
          (if err \<noteq> PNone then (Inl (Exception ''Failed retrieving datasources.''), ev0)
           else
             (case json_loads datasources_json of
                Inl e \<Rightarrow> (Inl e, ev0)
              | Inr datasources \<Rightarrow>
                  (case fan_out env query user (rows datasources)
                          \<lparr>total_rows = [], results = None, error = err\<rparr> of
                     (Inl e, ev1) \<Rightarrow> (Inl e, ev0 @ ev1)
                   | (Inr st, ev1) \<Rightarrow> (aggregate env st, ev0 @ ev1)))))"

section \<open>The schema introspector: \<open>_get_tables\<close>\<close>


text \<open>\<open>d[key]\<close> on a dictionary with string keys.\<close>

definition getitem :: "(string \<times> 'v) list \<Rightarrow> string \<Rightarrow> exn + 'v" where
  "getitem d k = (case map_of d k of None \<Rightarrow> Inl (KeyError k) | Some v \<Rightarrow> Inr v)"

text \<open>How \<open>u'{}'.format(v)\<close> renders a JSON scalar.\<close>

definition format_cell :: "jcell \<Rightarrow> string" where
  "format_cell v =
     (case v of
        JStr s \<Rightarrow> s
      | JNum n \<Rightarrow> str_int n
      | JBool b \<Rightarrow> (if b then ''True'' else ''False'')
      | JNull \<Rightarrow> ''None'')"

text \<open>
  Python's \<open>==\<close> on JSON scalars, which is also how a dictionary compares keys: \<open>True\<close> and
  \<open>1\<close> are equal, and so are \<open>False\<close> and \<open>0\<close>.
\<close>

fun py_eq :: "jcell \<Rightarrow> jcell \<Rightarrow> bool" where
  "py_eq (JNum n) (JBool b) = (n = (if b then 1 else 0))"
| "py_eq (JBool b) (JNum n) = (n = (if b then 1 else 0))"
| "py_eq a b = (a = b)"

text \<open>
  Lines 127 to 130: the qualified table name of a row. \<open>self.configuration['db']\<close> raises
  \<open>KeyError\<close> when the key is absent.
\<close>

definition qualified_name :: "env \<Rightarrow> (string \<times> jcell) list \<Rightarrow> exn + jcell" where
  "qualified_name env row =
     (case getitem row ''table_schema'' of
        Inl e \<Rightarrow> Inl e
      | Inr table_schema \<Rightarrow>
     (case conf_db (configuration env) of
        None \<Rightarrow> Inl (KeyError ''db'')
      | Some db \<Rightarrow>
     (case getitem row ''table_name'' of
        Inl e \<Rightarrow> Inl e
      | Inr table_name \<Rightarrow>
          Inr (if \<not> py_eq table_schema (JStr db)
               then JStr (format_cell table_schema @ ''.'' @ format_cell table_name)
               else table_name))))"

text \<open>
  The value \<open>{'name': table_name, 'columns': [...]}\<close> of the \<open>schema\<close> dictionary, and the
  dictionary itself, in insertion order.
\<close>

record table_entry =
  name :: jcell
  table_columns :: "jcell list"

type_synonym schema = "(jcell \<times> table_entry) list"

text \<open>\<open>table_name in schema\<close>\<close>

definition has_key :: "schema \<Rightarrow> jcell \<Rightarrow> bool" where
  "has_key schema k = list_ex (\<lambda>kv. py_eq (fst kv) k) schema"

text \<open>\<open>schema[table_name]['columns'].append(c)\<close>, on the entry that has the key.\<close>

fun append_column :: "schema \<Rightarrow> jcell \<Rightarrow> jcell \<Rightarrow> schema" where
  "append_column [] k c = []"
| "append_column (kv # rest) k c =
     (if py_eq (fst kv) k
      then (fst kv, (snd kv)\<lparr>table_columns := table_columns (snd kv) @ [c]\<rparr>) # rest
      else kv # append_column rest k c)"

text \<open>
  Lines 127 to 135, one iteration: the entry is created before \<open>row['column_name']\<close> is
  read.
\<close>

definition get_tables_step :: "env \<Rightarrow> (string \<times> jcell) list \<Rightarrow> schema \<Rightarrow> exn + schema" where
  "get_tables_step env row schema =
     (case qualified_name env row of
        Inl e \<Rightarrow> Inl e
      | Inr table_name \<Rightarrow>
          (let schema' =
                 (if \<not> has_key schema table_name
                  then schema @ [(table_name, \<lparr>name = table_name, table_columns = []\<rparr>)]
                  else schema)
           in case getitem row ''column_name'' of
                Inl e \<Rightarrow> Inl e
              | Inr c \<Rightarrow> Inr (append_column schema' table_name c)))"



section \<open>Notions used to state the properties\<close>

text \<open>
  Connections that a trace leaves open: \<open>Connected\<close> opens one, \<open>Closed\<close> releases one.
\<close>

fun open_after :: "connect_args list \<Rightarrow> event list \<Rightarrow> connect_args list" where
  "open_after opened [] = opened"
| "open_after opened (Connected a # evs) = open_after (a # opened) evs"
| "open_after opened (Closed a # evs) = open_after (remove1 a opened) evs"
| "open_after opened (ev # evs) = open_after opened evs"

text \<open>
  What the \<open>try\<close> body of the loop meets for one discovery row \<open>d\<close>: the \<open>KeyError\<close> of
  \<open>d['datasource']\<close>, or the outcome of the single-target execution against that target.
\<close>

definition target_outcome ::
  "env \<Rightarrow> pystring \<Rightarrow> 'u \<Rightarrow> (string \<times> jcell) list
     \<Rightarrow> exn + (jcell result_set option \<times> pyval)" where
  "target_outcome env query user d =
     (case map_of d ''datasource'' of
        None \<Rightarrow> Inl (KeyError ''datasource'')
      | Some datasource \<Rightarrow> fst (run_query_on_datasource env query user datasource))"

text \<open>The Result Set a target produced, if its execution returned one.\<close>

definition target_result ::
  "env \<Rightarrow> pystring \<Rightarrow> 'u \<Rightarrow> (string \<times> jcell) list \<Rightarrow> jcell result_set option" where
  "target_result env query user d =
     (case target_outcome env query user d of
        Inr (Some res, err) \<Rightarrow> Some res
      | _ \<Rightarrow> None)"

definition target_rows ::
  "env \<Rightarrow> pystring \<Rightarrow> 'u \<Rightarrow> (string \<times> jcell) list \<Rightarrow> (string \<times> jcell) list list" where
  "target_rows env query user d =
     (case target_result env query user d of None \<Rightarrow> [] | Some res \<Rightarrow> rows res)"

text \<open>
  The error slot of a target whose execution returned (\<open>PNone\<close> when it returned a Result
  Set, a soft error otherwise); nothing for a target whose execution raised.
\<close>

definition target_error ::
  "env \<Rightarrow> pystring \<Rightarrow> 'u \<Rightarrow> (string \<times> jcell) list \<Rightarrow> pyval option" where
  "target_error env query user d =
     (case target_outcome env query user d of
        Inr (res, err) \<Rightarrow> Some err
      | Inl e \<Rightarrow> None)"

text \<open>
  An execution is interrupted when it raises an exception outside the class \<open>Exception\<close>:
  a \<open>KeyboardInterrupt\<close> raised by \<open>cancel()\<close> or \<open>close()\<close>, which no handler of the
  executor catches.
\<close>

definition interrupted ::
  "env \<Rightarrow> pystring \<Rightarrow> 'u \<Rightarrow> (string \<times> jcell) list \<Rightarrow> bool" where
  "interrupted env query user d =
     (case target_outcome env query user d of
        Inl e \<Rightarrow> \<not> is_Exception e
      | Inr r \<Rightarrow> False)"

text \<open>
  The discovery call reports an error when it raises or returns an error value other than
  \<open>None\<close>.
\<close>

definition reports_error :: "exn + (jcell result_set option \<times> pyval) \<Rightarrow> bool" where
  "reports_error r = (case r of Inl e \<Rightarrow> True | Inr (json_data, err) \<Rightarrow> err \<noteq> PNone)"







section \<open>An example server\<close>

text \<open>A connection on which every call succeeds, with a fixed description and data.\<close>

definition serving :: "(string \<times> int) list \<Rightarrow> cell list list \<Rightarrow> connection" where
  "serving descr data =
     \<lparr>cursor_raises = None,
      execute_raises = (\<lambda>q. None),
      fetchall = (\<lambda>q. Inr data),
      description = (\<lambda>q. Some descr),
      cursor_close_raises = None,
      cancel_raises = None,
      close_raises = None\<rparr>"

text \<open>A connection on which \<open>cursor.execute\<close> raises.\<close>

definition refusing :: "exn \<Rightarrow> connection" where
  "refusing e = (serving [] [])\<lparr>execute_raises := (\<lambda>q. Some e)\<rparr>"

text \<open>A connection on which \<open>cursor.fetchall\<close> is interrupted by the user.\<close>

definition waiting :: connection where
  "waiting = (serving [] [])\<lparr>fetchall := (\<lambda>q. Inl KeyboardInterrupt)\<rparr>"

text \<open>A connection on which \<open>cursor.execute\<close>, and then \<open>close()\<close>, are interrupted.\<close>

definition stuck :: connection where
  "stuck = (refusing KeyboardInterrupt)\<lparr>close_raises := Some KeyboardInterrupt\<rparr>"

definition targets_table :: "string list \<Rightarrow> connection" where
  "targets_table ts = serving [(''datasource'', 1)] (map (\<lambda>t. [Native (JStr t)]) ts)"

text \<open>
  The databases of the example server: seven directories of targets, two targets that
  answer, one on which the statement fails unexpectedly, one on which it is refused with a
  query error, two on which the user interrupts, one that serves the metadata query; the
  server refuses a connection to any other database.
\<close>

definition example_server :: "jcell \<Rightarrow> exn + connection" where
  "example_server database =
     (if database = JStr ''master'' then Inr (targets_table [''db1'', ''db2'', ''db3'', ''db4''])
      else if database = JStr ''pair'' then Inr (targets_table [''db1'', ''db2''])
      else if database = JStr ''nothing'' then Inr (targets_table [])
      else if database = JStr ''broken'' then Inr (targets_table [''db2'', ''db4'', ''gone''])
      else if database = JStr ''cut'' then Inr (targets_table [''db1'', ''db6'', ''db3''])
      else if database = JStr ''mixed'' then Inr (targets_table [''db4'', ''db2'', ''db1''])
      else if database = JStr ''single'' then Inr (targets_table [''db4''])
      else if database = JStr ''db1'' then
        Inr (serving [(''id'', 3), (''name'', 1)]
               [[Native (JNum 1), Native (JStr ''ann'')],
                [Native (JNum 2), Native (JStr ''bob'')]])
      else if database = JStr ''db2'' then Inr (refusing (OtherException ''ValueError''))
      else if database = JStr ''db3'' then
        Inr (serving [(''id'', 3), (''token'', 36)]
               [[Native (JNum 7), Object (UUID ''6f1c'')]])
      else if database = JStr ''db4'' then
        Inr (refusing (PymssqlError [PInt 208, PStr ''Invalid object name'']))
      else if database = JStr ''db5'' then Inr waiting
      else if database = JStr ''db6'' then Inr stuck
      else if database = JStr ''Sales'' then
        Inr (serving [(''table_schema'', 1), (''table_name'', 1), (''column_name'', 1)]
               [[Native (JStr ''Sales''), Native (JStr ''Orders''), Native (JStr ''id'')],
                [Native (JStr ''dbo2''), Native (JStr ''Orders''), Native (JStr ''id'')],
                [Native (JStr ''Sales''), Native (JStr ''Orders''), Native (JStr ''total'')]])
      else Inl (PymssqlError [PTuple [PInt 20009, PStr ''Unable to connect'']]))"

definition example_configuration :: configuration where
  "example_configuration =
     \<lparr>conf_user = Some ''redash'',
      conf_password = Some ''secret'',
      conf_server = Some ''10.0.0.5'',
      conf_port = None,
      conf_tds_version = None,
      conf_charset = None,
      conf_db = Some ''Sales'',
      conf_master_db = Some ''master'',
      conf_datasources_query = Some (Unicode ''SELECT name AS datasource FROM tenants'')\<rparr>"

definition example_env :: "string \<Rightarrow> env" where
  "example_env master =
     \<lparr>configuration = example_configuration\<lparr>conf_master_db := Some master\<rparr>,
      pymssql_connect = (\<lambda>args. example_server (arg_database args)),
      encode = (\<lambda>charset q. Inr q),
      JSONEncoder_default = (\<lambda>obj. Inl TypeError)\<rparr>"


definition example_query :: pystring where
  "example_query = Unicode ''SELECT * FROM users''"

text \<open>What the example server answers to the discovery query and to the targets.\<close>

definition example_targets :: "string list \<Rightarrow> jcell result_set" where
  "example_targets ts =
     \<lparr>columns = [\<lparr>col_name = ''datasource'', col_type = Some TYPE_STRING\<rparr>],
      rows = map (\<lambda>t. [(''datasource'', JStr t)]) ts\<rparr>"

definition db1_result :: "jcell result_set" where
  "db1_result =
     \<lparr>columns = [\<lparr>col_name = ''id'', col_type = Some TYPE_FLOAT\<rparr>,
                 \<lparr>col_name = ''name'', col_type = Some TYPE_STRING\<rparr>],
      rows = [[(''id'', JNum 1), (''name'', JStr ''ann'')],
              [(''id'', JNum 2), (''name'', JStr ''bob'')]]\<rparr>"

definition db3_result :: "jcell result_set" where
  "db3_result =
     \<lparr>columns = [\<lparr>col_name = ''id'', col_type = Some TYPE_FLOAT\<rparr>,
                 \<lparr>col_name = ''token'', col_type = UNKNOWN\<rparr>],
      rows = [[(''id'', JNum 7), (''token'', JStr ''6f1c'')]]\<rparr>"

definition example_args :: "string \<Rightarrow> connect_args" where
  "example_args database =
     \<lparr>arg_server = ''10.0.0.5'', arg_user = ''redash'', arg_password = ''secret'',
      arg_database = JStr database, arg_tds_version = ''4.2'', arg_charset = ''ISO-8859-1''\<rparr>"

section \<open>Properties of the type mapper\<close>

text \<open>
  C5. The type mapper is total on the integers: code 1 gives STRING, 2 BOOLEAN, 3 FLOAT,
  4 DATETIME, 5 FLOAT, and every other code gives UNKNOWN, the \<open>None\<close> default of
  \<open>types_map.get\<close>; no code raises.
\<close>

theorem types_map_get_total:
  "types_map_get code =
     (if code = 1 then Some TYPE_STRING
      else if code = 2 then Some TYPE_BOOLEAN
      else if code = 3 then Some TYPE_FLOAT
      else if code = 4 then Some TYPE_DATETIME
      else if code = 5 then Some TYPE_FLOAT
      else UNKNOWN)"
  by (simp add: types_map_get_def types_map_def)

theorem types_map_get_total_witness:
  "types_map_get 1 = Some TYPE_STRING \<and> types_map_get 3 = Some TYPE_FLOAT
   \<and> types_map_get 5 = Some TYPE_FLOAT \<and> types_map_get 0 = UNKNOWN
   \<and> types_map_get 36 = UNKNOWN \<and> types_map_get (- 1) = UNKNOWN"
  using types_map_get_total [of 1] types_map_get_total [of 3] types_map_get_total [of 5]
    types_map_get_total [of 0] types_map_get_total [of 36] types_map_get_total [of "- 1"]
  by simp

section \<open>Properties of the single-target executor\<close>

lemma run_statement_events:
  "run_statement env charset c q = (r, evs) \<Longrightarrow> evs = [] \<or> (\<exists>s. evs = [Executed s])"
  by (auto simp add: run_statement_def split: sum.splits option.splits)

lemma handle_exception_events:
  "handle_exception args conn e = (h, evs) \<Longrightarrow> evs = [] \<or> evs = [Cancelled args]"
  by (auto simp add: handle_exception_def split: sum.splits option.splits exn.splits)

text \<open>
  C6. Whatever the driver, the codec and the encoder do, a single-target execution leaves
  no connection open: when \<open>pymssql.connect\<close> returned a connection, \<open>close()\<close> has been
  called on it by the time \<open>run_query_on_datasource\<close> returns or raises, on the paths
  of success, query error, cancellation and unexpected failure alike; when
  \<open>pymssql.connect\<close> raised, no connection was opened.
\<close>

theorem connection_released:
  "open_after [] (snd (run_query_on_datasource env query user db)) = []"
proof (cases "pymssql_connect env (connection_arguments env db)")
  case (Inl e)
  then show ?thesis
    by (auto simp add: run_query_on_datasource_def Let_def finally_close_def
        split: prod.splits dest: handle_exception_events)
next
  case (Inr c)
  then show ?thesis
    by (auto simp add: run_query_on_datasource_def Let_def finally_close_def
        split: prod.splits option.splits sum.splits
        dest!: handle_exception_events run_statement_events)
qed

text \<open>
  The five exit paths on the example server: a Result Set (db1), a query error (db4), a
  cancellation (db5), an unexpected failure (db2), a refused connection (gone).
\<close>

theorem connection_released_witness:
  "run_query_on_datasource (example_env ''master'') example_query () (JStr ''db1'')
     = (Inr (Some db1_result, PNone),
        [Connected (example_args ''db1''), Executed ''SELECT * FROM users'',
         Closed (example_args ''db1'')])
   \<and> run_query_on_datasource (example_env ''master'') example_query () (JStr ''db4'')
     = (Inr (None, PStr ''Invalid object name''),
        [Connected (example_args ''db4''), Executed ''SELECT * FROM users'',
         Closed (example_args ''db4'')])
   \<and> run_query_on_datasource (example_env ''master'') example_query () (JStr ''db5'')
     = (Inr (None, PStr ''Query cancelled by user.''),
        [Connected (example_args ''db5''), Executed ''SELECT * FROM users'',
         Cancelled (example_args ''db5''), Closed (example_args ''db5'')])
   \<and> run_query_on_datasource (example_env ''master'') example_query () (JStr ''db2'')
     = (Inl (OtherException ''ValueError''),
        [Connected (example_args ''db2''), Executed ''SELECT * FROM users'',
         Closed (example_args ''db2'')])
   \<and> open_after []
        (snd (run_query_on_datasource (example_env ''master'') example_query () (JStr ''db5'')))
     = []"
proof -
  have "run_query_on_datasource (example_env ''master'') example_query () (JStr ''db1'')
     = (Inr (Some db1_result, PNone),
        [Connected (example_args ''db1''), Executed ''SELECT * FROM users'',
         Closed (example_args ''db1'')])"
    by code_simp
  moreover
  have "run_query_on_datasource (example_env ''master'') example_query () (JStr ''db4'')
     = (Inr (None, PStr ''Invalid object name''),
        [Connected (example_args ''db4''), Executed ''SELECT * FROM users'',
         Closed (example_args ''db4'')])"
    by code_simp
  moreover
  have "run_query_on_datasource (example_env ''master'') example_query () (JStr ''db5'')
     = (Inr (None, PStr ''Query cancelled by user.''),
        [Connected (example_args ''db5''), Executed ''SELECT * FROM users'',
         Cancelled (example_args ''db5''), Closed (example_args ''db5'')])"
    by code_simp
  moreover
  have "run_query_on_datasource (example_env ''master'') example_query () (JStr ''db2'')
     = (Inl (OtherException ''ValueError''),
        [Connected (example_args ''db2''), Executed ''SELECT * FROM users'',
         Closed (example_args ''db2'')])"
    by code_simp
  ultimately show ?thesis
    using connection_released [of "example_env ''master''" example_query "()" "JStr ''db5''"]
    by simp
qed

text \<open>
  When \<open>pymssql.connect\<close> raises, whatever it raises, the local variable \<open>connection\<close> is
  still unbound when the \<open>finally\<close> clause reads it: the execution ends with
  \<open>UnboundLocalError\<close>, after the handler of \<open>pymssql.Error\<close> has run.
\<close>

lemma refused_connection_raises:
  assumes "pymssql_connect env (connection_arguments env db) = Inl e"
  shows "run_query_on_datasource env query user db
           = (Inl (UnboundLocalError ''connection''),
              [ConnectFailed (connection_arguments env db)])"
  using assms
  by (auto simp add: run_query_on_datasource_def Let_def finally_close_def
      handle_exception_def split: prod.splits exn.splits sum.splits)

text \<open>
  A \<open>pymssql.Error\<close> raised by \<open>cursor.execute\<close>, with the message at \<open>args[1]\<close> (a query
  error) or at \<open>args[0][1]\<close> (the shape of a connection error), is returned as the error
  value when \<open>close()\<close> does not raise: the handler does what its comments say once the
  connection is bound.
\<close>

lemma execute_error_is_returned:
  assumes "pymssql_connect env (connection_arguments env db) = Inr c"
    and "encode_query env (arg_charset (connection_arguments env db)) query = Inr q"
    and "cursor_raises c = None"
    and "execute_raises c q = Some (PymssqlError eargs)"
    and "eargs = code # message # more_args \<or> eargs = [PTuple (code # message # more_args)]"
    and "close_raises c = None"
  shows "fst (run_query_on_datasource env query user db) = Inr (None, message)"
  using assms
  by (auto simp add: run_query_on_datasource_def Let_def finally_close_def
      handle_exception_def run_statement_def pymssql_error_message_def py_getitem_def)

text \<open>
  C7. A connection-establishment failure should come back as \<open>(None, message)\<close>, with the
  message found at \<open>args[0][1]\<close>, and not as an exception. The code does not do that: on
  the example server the database \<open>gone\<close> refuses the connection with a \<open>pymssql.Error\<close>
  whose \<open>args[0][1]\<close> is the message \<open>Unable to connect\<close>; the handler's lookup finds that
  message, yet the execution does not return it: it raises \<open>UnboundLocalError\<close>, because
  the \<open>finally\<close> clause reads \<open>connection\<close>, which only line 140 of \<open>run_query\<close>, another
  function, initialises.
\<close>

theorem connection_error_is_not_returned:
  "pymssql_connect (example_env ''master'') (example_args ''gone'')
     = Inl (PymssqlError [PTuple [PInt 20009, PStr ''Unable to connect'']])
   \<and> pymssql_error_message [PTuple [PInt 20009, PStr ''Unable to connect'']]
     = Inr (PStr ''Unable to connect'')
   \<and> run_query_on_datasource (example_env ''master'') example_query () (JStr ''gone'')
     = (Inl (UnboundLocalError ''connection''), [ConnectFailed (example_args ''gone'')])"
proof -
  have "pymssql_connect (example_env ''master'') (example_args ''gone'')
          = Inl (PymssqlError [PTuple [PInt 20009, PStr ''Unable to connect'']])"
    by (simp add: example_env_def example_args_def example_server_def)
  moreover have "pymssql_error_message [PTuple [PInt 20009, PStr ''Unable to connect'']]
          = Inr (PStr ''Unable to connect'')"
    by (simp add: pymssql_error_message_def py_getitem_def)
  moreover
  have "run_query_on_datasource (example_env ''master'') example_query () (JStr ''gone'')
     = (Inl (UnboundLocalError ''connection''), [ConnectFailed (example_args ''gone'')])"
    by code_simp
  ultimately show ?thesis by simp
qed

theorem connection_error_is_not_returned_witness:
  "fst (run_query_on_datasource (example_env ''master'') example_query () (JStr ''gone''))
     \<noteq> Inr (None, PStr ''Unable to connect'')"
  using connection_error_is_not_returned by simp

section \<open>Properties of the fan-out aggregator\<close>

subsection \<open>JSON of a loaded document\<close>

text \<open>
  A document that \<open>json.loads\<close> returned holds JSON scalars only, so \<open>json.dumps\<close> of it
  never calls the encoder's \<open>default\<close>: the last line of \<open>run_query\<close> cannot raise.
\<close>

lemma traverse_encode_native:
  "traverse (encode_item env) (map (\<lambda>(k, j). (k, Native j)) row) = Inr row"
  by (induction row) (auto simp add: encode_item_def encode_cell_def)

lemma traverse_rows_native:
  "traverse (traverse (encode_item env)) (map (map (\<lambda>(k, j). (k, Native j))) rs) = Inr rs"
  by (induction rs) (simp_all add: traverse_encode_native)

lemma json_dumps_loaded: "json_dumps env (loaded r) = Inr r"
  by (simp add: json_dumps_def loaded_def traverse_rows_native)

lemma aggregate_eq:
  "aggregate env st =
     (case results st of
        None \<Rightarrow> Inl (UnboundLocalError ''results'')
      | Some res \<Rightarrow> Inr (res\<lparr>rows := total_rows st\<rparr>, error st))"
  by (simp add: aggregate_def json_dumps_loaded split: option.splits)

subsection \<open>One iteration, by the outcome of the target\<close>

lemma fan_out_step_raised:
  assumes "target_outcome env query user d = Inl e"
  shows "fst (fan_out_step env query user d st) = (if is_Exception e then Inr st else Inl e)"
  using assms
  by (auto simp add: fan_out_step_def fan_out_try_def target_outcome_def
      split: option.splits prod.splits sum.splits)

lemma fan_out_step_soft:
  assumes "target_outcome env query user d = Inr (None, err)"
  shows "fst (fan_out_step env query user d st) = Inr (st\<lparr>error := err\<rparr>)"
  using assms
  by (auto simp add: fan_out_step_def fan_out_try_def target_outcome_def json_loads_def
      split: option.splits prod.splits sum.splits)

lemma fan_out_step_produced:
  assumes "target_outcome env query user d = Inr (Some res, err)"
  shows "fst (fan_out_step env query user d st) =
           Inr (st\<lparr>error := err, results := Some res, total_rows := total_rows st @ rows res\<rparr>)"
  using assms
  by (auto simp add: fan_out_step_def fan_out_try_def target_outcome_def json_loads_def
      split: option.splits prod.splits sum.splits)

lemma fan_out_step_logged:
  assumes "target_outcome env query user d = Inl e" and "is_Exception e"
  shows "Logged e \<in> set (snd (fan_out_step env query user d st))"
  using assms
  by (auto simp add: fan_out_step_def fan_out_try_def target_outcome_def
      split: option.splits prod.splits sum.splits)

lemma fan_out_step_state:
  assumes "fst (fan_out_step env query user d st) = Inr st'"
  shows "total_rows st' = total_rows st @ target_rows env query user d
       \<and> results st' = last (results st # map Some (List.map_filter (target_result env query user) [d]))
       \<and> error st' = last (error st # List.map_filter (target_error env query user) [d])"
proof (cases "target_outcome env query user d")
  case (Inl e)
  with assms fan_out_step_raised [OF Inl, of st] show ?thesis
    by (auto simp add: target_rows_def target_result_def target_error_def List.map_filter_def
        split: if_splits)
next
  case (Inr r)
  obtain j err where r: "r = (j, err)" by (cases r)
  show ?thesis
  proof (cases j)
    case None
    with assms Inr r fan_out_step_soft [of env query user d err st] show ?thesis
      by (auto simp add: target_rows_def target_result_def target_error_def List.map_filter_def)
  next
    case (Some res)
    with assms Inr r fan_out_step_produced [of env query user d res err st] show ?thesis
      by (auto simp add: target_rows_def target_result_def target_error_def List.map_filter_def)
  qed
qed

subsection \<open>The loop\<close>

lemma map_filter_Cons:
  "List.map_filter f (x # xs) = (case f x of None \<Rightarrow> List.map_filter f xs | Some y \<Rightarrow> y # List.map_filter f xs)"
  by (simp add: List.map_filter_def split: option.splits)

lemma fan_out_state:
  assumes "fst (fan_out env query user ds st) = Inr st'"
  shows "total_rows st' = total_rows st @ concat (map (target_rows env query user) ds)
       \<and> results st' = last (results st # map Some (List.map_filter (target_result env query user) ds))
       \<and> error st' = last (error st # List.map_filter (target_error env query user) ds)"
  using assms
proof (induction ds arbitrary: st)
  case Nil
  then show ?case by (simp add: List.map_filter_def)
next
  case (Cons d ds)
  obtain r evs where step: "fan_out_step env query user d st = (r, evs)"
    by (cases "fan_out_step env query user d st")
  with Cons.prems obtain st1 where r: "r = Inr st1"
    by (cases r) auto
  from step r have s1: "fst (fan_out_step env query user d st) = Inr st1" by simp
  from Cons.prems step r have rest: "fst (fan_out env query user ds st1) = Inr st'"
    by (simp split: prod.splits)
  note a = fan_out_step_state [OF s1]
  note b = Cons.IH [OF rest]
  show ?case
    using a b
    by (auto simp add: map_filter_Cons List.map_filter_def split: option.splits)
qed


lemma fan_out_returns:
  assumes "list_all (\<lambda>d. \<not> interrupted env query user d) ds"
  shows "\<exists>st'. fst (fan_out env query user ds st) = Inr st'"
  using assms
proof (induction ds arbitrary: st)
  case Nil
  then show ?case by simp
next
  case (Cons d ds)
  from Cons.prems have d: "\<not> interrupted env query user d"
    and ds: "list_all (\<lambda>d. \<not> interrupted env query user d) ds" by simp_all
  have "\<exists>st1. fst (fan_out_step env query user d st) = Inr st1"
  proof (cases "target_outcome env query user d")
    case (Inl e)
    with d have "is_Exception e" by (simp add: interrupted_def)
    with fan_out_step_raised [OF Inl, of st] show ?thesis by simp
  next
    case (Inr r)
    obtain j err where r: "r = (j, err)" by (cases r)
    show ?thesis
      using Inr r fan_out_step_soft [of env query user d err st]
        fan_out_step_produced [of env query user d _ err st]
      by (cases j) auto
  qed
  then obtain st1 where s1: "fst (fan_out_step env query user d st) = Inr st1" ..
  from Cons.IH [OF ds, of st1] obtain st' where "fst (fan_out env query user ds st1) = Inr st'" ..
  with s1 show ?case
    by (auto split: prod.splits)
qed

lemma fan_out_logged:
  assumes "fst (fan_out env query user ds st) = Inr st'"
    and "d \<in> set ds"
    and "target_outcome env query user d = Inl e"
  shows "Logged e \<in> set (snd (fan_out env query user ds st))"
  using assms
proof (induction ds arbitrary: st)
  case Nil
  then show ?case by simp
next
  case (Cons x ds)
  obtain r evs where step: "fan_out_step env query user x st = (r, evs)"
    by (cases "fan_out_step env query user x st")
  with Cons.prems(1) obtain st1 where r: "r = Inr st1"
    by (cases r) auto
  obtain r' evs' where rest: "fan_out env query user ds st1 = (r', evs')"
    by (cases "fan_out env query user ds st1")
  from Cons.prems(1) step r rest have r': "r' = Inr st'" by simp
  from step r rest have evs: "snd (fan_out env query user (x # ds) st) = evs @ evs'" by simp
  show ?case
  proof (cases "d = x")
    case True
    from step r have "fst (fan_out_step env query user x st) = Inr st1" by simp
    with fan_out_step_raised [of env query user x e st] Cons.prems(3) True
    have "is_Exception e" by (auto split: if_splits)
    with fan_out_step_logged [of env query user x e st] Cons.prems(3) True step
    have "Logged e \<in> set evs" by simp
    with evs show ?thesis by simp
  next
    case False
    with Cons.prems(2) have "d \<in> set ds" by simp
    with Cons.IH [of st1] rest r' Cons.prems(3) have "Logged e \<in> set evs'" by simp
    with evs show ?thesis by simp
  qed
qed

lemma run_query_after_discovery:
  assumes "run_query_on_datasource env (discovery_query env) user (master_database env)
             = (Inr (Some datasources, PNone), ev0)"
  shows "run_query env query user =
           (case fan_out env query user (rows datasources)
                   \<lparr>total_rows = [], results = None, error = PNone\<rparr> of
              (Inl e, ev1) \<Rightarrow> (Inl e, ev0 @ ev1)
            | (Inr st, ev1) \<Rightarrow> (aggregate env st, ev0 @ ev1))"
  using assms by (simp add: run_query_def json_loads_def)

lemma run_query_returned:
  assumes disc: "fst (run_query_on_datasource env (discovery_query env) user (master_database env))
             = Inr (Some datasources, PNone)"
    and ret: "fst (run_query env query user) = Inr (res, err)"
  shows "\<exists>st r. fst (fan_out env query user (rows datasources)
                   \<lparr>total_rows = [], results = None, error = PNone\<rparr>) = Inr st
          \<and> results st = Some r \<and> res = r\<lparr>rows := total_rows st\<rparr> \<and> err = error st"
proof -
  obtain ev0 where d: "run_query_on_datasource env (discovery_query env) user (master_database env)
             = (Inr (Some datasources, PNone), ev0)"
    using disc by (cases "run_query_on_datasource env (discovery_query env) user (master_database env)") auto
  show ?thesis
    using ret unfolding run_query_after_discovery [OF d]
    by (auto simp add: aggregate_eq split: prod.splits sum.splits option.splits)
qed

lemma map_filter_append:
  "List.map_filter f (xs @ ys) = List.map_filter f xs @ List.map_filter f ys"
  by (simp add: List.map_filter_def)

subsection \<open>Discovery\<close>

text \<open>
  C3. When the discovery call reports an error, by raising or by returning an error value,
  \<open>run_query\<close> raises: the exception of the call, or \<open>Exception\<close> with the message
  \<open>Failed retrieving datasources.\<close>; it returns no result, and its trace is the trace of
  the discovery call alone, so no target is connected to or queried.
\<close>

theorem discovery_failure_is_fatal:
  assumes "run_query_on_datasource env (discovery_query env) user (master_database env) = (r, ev0)"
    and "reports_error r"
  shows "run_query env query user =
           (Inl (case r of Inl e \<Rightarrow> e | Inr x \<Rightarrow> Exception ''Failed retrieving datasources.''), ev0)"
  using assms
  by (auto simp add: run_query_def reports_error_def split: sum.splits)

text \<open>
  On the example server: the discovery query is refused with a query error (directory
  \<open>db4\<close>), and the connection to the master database is refused (directory \<open>gone\<close>).
\<close>

theorem discovery_failure_is_fatal_witness:
  "run_query (example_env ''db4'') example_query ()
     = (Inl (Exception ''Failed retrieving datasources.''),
        [Connected (example_args ''db4''), Executed ''SELECT name AS datasource FROM tenants'',
         Closed (example_args ''db4'')])
   \<and> run_query (example_env ''gone'') example_query ()
     = (Inl (UnboundLocalError ''connection''), [ConnectFailed (example_args ''gone'')])"
proof -
  have a: "run_query_on_datasource (example_env ''db4'') (discovery_query (example_env ''db4''))
             () (master_database (example_env ''db4''))
           = (Inr (None, PStr ''Invalid object name''),
              [Connected (example_args ''db4''),
               Executed ''SELECT name AS datasource FROM tenants'',
               Closed (example_args ''db4'')])"
    by code_simp
  have b: "run_query_on_datasource (example_env ''gone'') (discovery_query (example_env ''gone''))
             () (master_database (example_env ''gone''))
           = (Inl (UnboundLocalError ''connection''), [ConnectFailed (example_args ''gone'')])"
    by code_simp
  have ra: "reports_error (Inr (None, PStr ''Invalid object name''))"
    by (simp add: reports_error_def)
  have rb: "reports_error (Inl (UnboundLocalError ''connection''))"
    by (simp add: reports_error_def)
  from discovery_failure_is_fatal [OF a ra, of example_query]
    discovery_failure_is_fatal [OF b rb, of example_query]
  show ?thesis by simp
qed

subsection \<open>The aggregated result\<close>

text \<open>
  Whenever \<open>run_query\<close> produces its final result, the rows of that result are the rows of
  the targets' Result Sets, concatenated in discovery order.
\<close>

lemma returned_rows_are_concatenated:
  assumes "fst (run_query_on_datasource env (discovery_query env) user (master_database env))
             = Inr (Some datasources, PNone)"
    and "fst (run_query env query user) = Inr (res, err)"
  shows "rows res = concat (map (target_rows env query user) (rows datasources))
       \<and> length (rows res) = sum_list (map (\<lambda>d. length (target_rows env query user d)) (rows datasources))"
proof -
  from run_query_returned [OF assms] obtain st r where
    st: "fst (fan_out env query user (rows datasources)
                   \<lparr>total_rows = [], results = None, error = PNone\<rparr>) = Inr st"
    and res: "res = r\<lparr>rows := total_rows st\<rparr>" by blast
  from fan_out_state [OF st] res
  have "rows res = concat (map (target_rows env query user) (rows datasources))" by simp
  then show ?thesis by (simp add: length_concat comp_def)
qed

text \<open>
  C2. When the discovery query returned the target rows \<open>rows datasources\<close>, at least one
  target produces a Result Set and no execution lets an interrupt escape, \<open>run_query\<close>
  returns its final result; the rows of that result are the rows of the targets' Result
  Sets, concatenated in discovery order, and their number is the sum of the targets' row
  counts, where a target whose execution raised, or returned no Result Set, counts no row.
\<close>

theorem aggregated_rows_are_sum:
  assumes disc: "fst (run_query_on_datasource env (discovery_query env) user (master_database env))
                   = Inr (Some datasources, PNone)"
    and produced: "List.map_filter (target_result env query user) (rows datasources) \<noteq> []"
    and uninterrupted: "list_all (\<lambda>d. \<not> interrupted env query user d) (rows datasources)"
  shows "\<exists>res err. fst (run_query env query user) = Inr (res, err)
       \<and> rows res = concat (map (target_rows env query user) (rows datasources))
       \<and> length (rows res)
           = sum_list (map (\<lambda>d. length (target_rows env query user d)) (rows datasources))"
proof -
  let ?init = "\<lparr>total_rows = [], results = None, error = PNone\<rparr>"
  obtain ev0 where d0: "run_query_on_datasource env (discovery_query env) user (master_database env)
             = (Inr (Some datasources, PNone), ev0)"
    using disc
    by (cases "run_query_on_datasource env (discovery_query env) user (master_database env)") auto
  from fan_out_returns [OF uninterrupted, of ?init]
  obtain st where st: "fst (fan_out env query user (rows datasources) ?init) = Inr st" ..
  note state = fan_out_state [OF st]
  from state produced obtain r where r: "results st = Some r"
    by (auto simp add: last_map)
  have total: "total_rows st = concat (map (target_rows env query user) (rows datasources))"
    using state by simp
  have "fst (run_query env query user) = Inr (r\<lparr>rows := total_rows st\<rparr>, error st)"
    unfolding run_query_after_discovery [OF d0] using st r
    by (auto simp add: aggregate_eq split: prod.splits)
  with total show ?thesis by (simp add: length_concat comp_def)
qed

text \<open>
  The scenario of the spec: targets db1 and db2; db1 answers two rows, db2 fails.
\<close>

theorem aggregated_rows_are_sum_witness:
  "\<exists>res err. fst (run_query (example_env ''pair'') example_query ()) = Inr (res, err)
     \<and> rows res = rows db1_result \<and> length (rows res) = 2"
proof -
  have disc: "fst (run_query_on_datasource (example_env ''pair'')
                 (discovery_query (example_env ''pair'')) () (master_database (example_env ''pair'')))
               = Inr (Some (example_targets [''db1'', ''db2'']), PNone)"
    by code_simp
  have produced: "List.map_filter (target_result (example_env ''pair'') example_query ())
                    (rows (example_targets [''db1'', ''db2''])) \<noteq> []"
    by code_simp
  have uninterrupted: "list_all (\<lambda>d. \<not> interrupted (example_env ''pair'') example_query () d)
                    (rows (example_targets [''db1'', ''db2'']))"
    by code_simp
  have rows_eq: "concat (map (target_rows (example_env ''pair'') example_query ())
                    (rows (example_targets [''db1'', ''db2'']))) = rows db1_result"
    by code_simp
  have counts: "sum_list (map (\<lambda>d. length (target_rows (example_env ''pair'') example_query () d))
         (rows (example_targets [''db1'', ''db2'']))) = 2"
    by code_simp
  from aggregated_rows_are_sum [OF disc produced uninterrupted]
  show ?thesis unfolding rows_eq counts .
qed

text \<open>
  A non-empty target list is not enough for a final result. The directory \<open>single\<close> lists
  the one target db4, whose execution returns a soft error and no Result Set: \<open>run_query\<close>
  raises \<open>UnboundLocalError\<close>. The directory \<open>cut\<close> lists db1, db6 and db3; db1 answers
  two rows, the execution against db6 lets an interrupt escape, and \<open>run_query\<close> raises
  \<open>KeyboardInterrupt\<close>. Neither run has a final result whose rows could be counted.
\<close>

theorem nonempty_targets_without_result:
  "fst (run_query_on_datasource (example_env ''single'')
          (discovery_query (example_env ''single'')) () (master_database (example_env ''single'')))
     = Inr (Some (example_targets [''db4'']), PNone)
   \<and> rows (example_targets [''db4'']) = [[(''datasource'', JStr ''db4'')]]
   \<and> fst (run_query_on_datasource (example_env ''single'') example_query () (JStr ''db4''))
     = Inr (None, PStr ''Invalid object name'')
   \<and> fst (run_query (example_env ''single'') example_query ())
     = Inl (UnboundLocalError ''results'')
   \<and> fst (run_query_on_datasource (example_env ''cut'')
          (discovery_query (example_env ''cut'')) () (master_database (example_env ''cut'')))
     = Inr (Some (example_targets [''db1'', ''db6'', ''db3'']), PNone)
   \<and> fst (run_query_on_datasource (example_env ''cut'') example_query () (JStr ''db1''))
     = Inr (Some db1_result, PNone)
   \<and> fst (run_query (example_env ''cut'') example_query ()) = Inl KeyboardInterrupt"
  by code_simp

text \<open>
  C4. When the discovery query returned the target rows \<open>rows datasources\<close> and
  \<open>run_query\<close> produces its final result, at least one target produced a Result Set, and
  the \<open>columns\<close> of the final result are the \<open>columns\<close> of the last such target in
  discovery order, whatever the columns of the earlier ones.
\<close>

theorem last_write_wins_schema:
  assumes "fst (run_query_on_datasource env (discovery_query env) user (master_database env))
             = Inr (Some datasources, PNone)"
    and "fst (run_query env query user) = Inr (res, err)"
  shows "List.map_filter (target_result env query user) (rows datasources) \<noteq> []
       \<and> columns res = columns (last (List.map_filter (target_result env query user) (rows datasources)))"
proof -
  from run_query_returned [OF assms] obtain st r where
    st: "fst (fan_out env query user (rows datasources)
                   \<lparr>total_rows = [], results = None, error = PNone\<rparr>) = Inr st"
    and r: "results st = Some r"
    and res: "res = r\<lparr>rows := total_rows st\<rparr>" by blast
  from fan_out_state [OF st] r
  have *: "Some r = last (None # map Some (List.map_filter (target_result env query user) (rows datasources)))"
    by simp
  then have ne: "List.map_filter (target_result env query user) (rows datasources) \<noteq> []"
    by (auto split: if_splits)
  with * have "r = last (List.map_filter (target_result env query user) (rows datasources))"
    by (simp add: last_map)
  with ne res show ?thesis by simp
qed



text \<open>
  Targets db1 to db4 of the example server: db1 has the columns \<open>id\<close>, \<open>name\<close>, db3 the
  columns \<open>id\<close>, \<open>token\<close>; the final result has the three rows and the columns of db3.
\<close>

theorem last_write_wins_schema_witness:
  "fst (run_query (example_env ''master'') example_query ())
     = Inr (\<lparr>columns = columns db3_result, rows = rows db1_result @ rows db3_result\<rparr>,
            PStr ''Invalid object name'')
   \<and> List.map_filter (target_result (example_env ''master'') example_query ())
        (rows (example_targets [''db1'', ''db2'', ''db3'', ''db4''])) = [db1_result, db3_result]
   \<and> columns db1_result \<noteq> columns db3_result"
proof -
  have disc: "fst (run_query_on_datasource (example_env ''master'')
                 (discovery_query (example_env ''master'')) ()
                 (master_database (example_env ''master'')))
               = Inr (Some (example_targets [''db1'', ''db2'', ''db3'', ''db4'']), PNone)"
    by code_simp
  have ret: "fst (run_query (example_env ''master'') example_query ())
     = Inr (\<lparr>columns = columns db3_result, rows = rows db1_result @ rows db3_result\<rparr>,
            PStr ''Invalid object name'')"
    by code_simp
  have produced: "List.map_filter (target_result (example_env ''master'') example_query ())
        (rows (example_targets [''db1'', ''db2'', ''db3'', ''db4''])) = [db1_result, db3_result]"
    by code_simp
  have differ: "columns db1_result \<noteq> columns db3_result"
    by (simp add: db1_result_def db3_result_def)
  from last_write_wins_schema [OF disc ret] ret produced differ show ?thesis by simp
qed

subsection \<open>Isolation of a failing target\<close>

text \<open>
  C1. Let the discovery query return the target rows \<open>before @ d # between @ d' # after\<close>,
  let the execution against the target \<open>T\<close> of \<open>d\<close> raise \<open>e\<close>, let the execution against
  the target \<open>T'\<close> of the later row \<open>d'\<close> return a Result Set, and let no execution of the
  run let an interrupt escape (the loop catches the class \<open>Exception\<close> only). Then
  \<open>run_query\<close> returns; the rows of its result are those of the other targets, so \<open>T\<close>
  contributes none; \<open>e\<close> is logged and not raised; and the error value returned is the
  error slot of the last target whose execution returned, \<open>T\<close> not among them: \<open>None\<close>
  when that target produced a Result Set, whatever soft error an earlier target returned.
\<close>

theorem fatal_failure_is_isolated:
  assumes disc: "fst (run_query_on_datasource env (discovery_query env) user (master_database env))
                   = Inr (Some datasources, PNone)"
    and order: "rows datasources = before @ d # between @ d' # after"
    and T: "map_of d ''datasource'' = Some T"
    and fails: "fst (run_query_on_datasource env query user T) = Inl e"
    and T': "map_of d' ''datasource'' = Some T'"
    and succeeds: "fst (run_query_on_datasource env query user T') = Inr (Some r', err')"
    and uninterrupted: "list_all (\<lambda>x. \<not> interrupted env query user x) (rows datasources)"
  shows "\<exists>res err evs. run_query env query user = (Inr (res, err), evs)
       \<and> rows res = concat (map (target_rows env query user) (before @ between @ d' # after))
       \<and> Logged e \<in> set evs
       \<and> err = last (List.map_filter (target_error env query user) (before @ between @ d' # after))"
proof -
  let ?init = "\<lparr>total_rows = [], results = None, error = PNone\<rparr>"
  obtain ev0 where d0: "run_query_on_datasource env (discovery_query env) user (master_database env)
             = (Inr (Some datasources, PNone), ev0)"
    using disc
    by (cases "run_query_on_datasource env (discovery_query env) user (master_database env)") auto
  have od: "target_outcome env query user d = Inl e"
    using T fails by (simp add: target_outcome_def)
  have od': "target_outcome env query user d' = Inr (Some r', err')"
    using T' succeeds by (simp add: target_outcome_def)
  from fan_out_returns [OF uninterrupted, of ?init]
  obtain st where st: "fst (fan_out env query user (rows datasources) ?init) = Inr st" ..
  obtain ev1 where f: "fan_out env query user (rows datasources) ?init = (Inr st, ev1)"
    using st by (cases "fan_out env query user (rows datasources) ?init") auto
  note state = fan_out_state [OF st]
  have rd: "target_rows env query user d = []"
    and ed: "target_error env query user d = None"
    and sd: "target_result env query user d = None"
    using od by (simp_all add: target_rows_def target_error_def target_result_def)
  have sd': "target_result env query user d' = Some r'"
    and ed': "target_error env query user d' = Some err'"
    using od' by (simp_all add: target_result_def target_error_def)
  have "List.map_filter (target_result env query user) (rows datasources) \<noteq> []"
    using sd' by (simp add: order map_filter_append map_filter_Cons split: option.splits)
  with state obtain r where r: "results st = Some r"
    by (auto simp add: last_map)
  have total: "total_rows st = concat (map (target_rows env query user) (before @ between @ d' # after))"
    using state rd by (simp add: order)
  have ne: "List.map_filter (target_error env query user) (before @ between @ d' # after) \<noteq> []"
    using ed' by (simp add: map_filter_append map_filter_Cons split: option.splits)
  have "List.map_filter (target_error env query user) (rows datasources)
          = List.map_filter (target_error env query user) (before @ between @ d' # after)"
    using ed by (simp add: order map_filter_append map_filter_Cons)
  with state ne have err: "error st = last (List.map_filter (target_error env query user) (before @ between @ d' # after))"
    by simp
  have "d \<in> set (rows datasources)" by (simp add: order)
  from fan_out_logged [OF st this od] f have logged: "Logged e \<in> set ev1" by simp
  have "run_query env query user = (Inr (r\<lparr>rows := total_rows st\<rparr>, error st), ev0 @ ev1)"
    unfolding run_query_after_discovery [OF d0] using f r by (simp add: aggregate_eq)
  with total err logged show ?thesis by simp
qed

text \<open>
  Targets db1 to db4 of the example server: db2 fails fatally, db3 answers later, db4
  returns a soft error last.
\<close>

theorem fatal_failure_is_isolated_witness:
  "\<exists>res err evs. run_query (example_env ''master'') example_query () = (Inr (res, err), evs)
     \<and> rows res = rows db1_result @ rows db3_result
     \<and> Logged (OtherException ''ValueError'') \<in> set evs
     \<and> err = PStr ''Invalid object name''"
proof -
  have disc: "fst (run_query_on_datasource (example_env ''master'')
                 (discovery_query (example_env ''master'')) ()
                 (master_database (example_env ''master'')))
               = Inr (Some (example_targets [''db1'', ''db2'', ''db3'', ''db4'']), PNone)"
    by code_simp
  have order: "rows (example_targets [''db1'', ''db2'', ''db3'', ''db4''])
     = [[(''datasource'', JStr ''db1'')]] @ [(''datasource'', JStr ''db2'')] # []
         @ [(''datasource'', JStr ''db3'')] # [[(''datasource'', JStr ''db4'')]]"
    by (simp add: example_targets_def)
  have T: "map_of [(''datasource'', JStr ''db2'')] ''datasource'' = Some (JStr ''db2'')"
    by simp
  have fails: "fst (run_query_on_datasource (example_env ''master'') example_query ()
                 (JStr ''db2'')) = Inl (OtherException ''ValueError'')"
    by code_simp
  have T': "map_of [(''datasource'', JStr ''db3'')] ''datasource'' = Some (JStr ''db3'')"
    by simp
  have succeeds: "fst (run_query_on_datasource (example_env ''master'') example_query ()
                 (JStr ''db3'')) = Inr (Some db3_result, PNone)"
    by code_simp
  have uninterrupted:
    "list_all (\<lambda>x. \<not> interrupted (example_env ''master'') example_query () x)
       (rows (example_targets [''db1'', ''db2'', ''db3'', ''db4'']))"
    by code_simp
  have rows_eq: "concat (map (target_rows (example_env ''master'') example_query ())
           ([[(''datasource'', JStr ''db1'')]] @ []
              @ [(''datasource'', JStr ''db3'')] # [[(''datasource'', JStr ''db4'')]]))
         = rows db1_result @ rows db3_result"
    by code_simp
  have err_eq: "last (List.map_filter (target_error (example_env ''master'') example_query ())
           ([[(''datasource'', JStr ''db1'')]] @ []
              @ [(''datasource'', JStr ''db3'')] # [[(''datasource'', JStr ''db4'')]]))
         = PStr ''Invalid object name''"
    by code_simp
  from fatal_failure_is_isolated [OF disc order T fails T' succeeds uninterrupted]
  show ?thesis unfolding rows_eq err_eq .
qed

text \<open>
  The error value is not the last soft error observed. The directory \<open>mixed\<close> lists db4,
  db2 and db1: db4 returns the soft error \<open>Invalid object name\<close>, db2 fails fatally, db1
  answers later, and \<open>run_query\<close> returns the error value \<open>None\<close>, the error slot of db1.
  Nor is every failure caught. The directory \<open>cut\<close> lists db1, db6 and db3: on db6 the
  user interrupts \<open>cursor.execute\<close> and then \<open>close()\<close>; the second \<open>KeyboardInterrupt\<close>
  leaves the \<open>finally\<close> clause, \<open>except Exception\<close> does not catch it, nothing is logged,
  and \<open>run_query\<close> ends with it before db3, which would answer, is connected to.
\<close>

theorem last_soft_error_is_overwritten:
  "fst (run_query_on_datasource (example_env ''mixed'')
          (discovery_query (example_env ''mixed'')) () (master_database (example_env ''mixed'')))
     = Inr (Some (example_targets [''db4'', ''db2'', ''db1'']), PNone)
   \<and> fst (run_query_on_datasource (example_env ''mixed'') example_query () (JStr ''db4''))
     = Inr (None, PStr ''Invalid object name'')
   \<and> fst (run_query_on_datasource (example_env ''mixed'') example_query () (JStr ''db2''))
     = Inl (OtherException ''ValueError'')
   \<and> fst (run_query_on_datasource (example_env ''mixed'') example_query () (JStr ''db1''))
     = Inr (Some db1_result, PNone)
   \<and> fst (run_query (example_env ''mixed'') example_query ()) = Inr (db1_result, PNone)
   \<and> fst (run_query_on_datasource (example_env ''cut'')
          (discovery_query (example_env ''cut'')) () (master_database (example_env ''cut'')))
     = Inr (Some (example_targets [''db1'', ''db6'', ''db3'']), PNone)
   \<and> fst (run_query_on_datasource (example_env ''cut'') example_query () (JStr ''db6''))
     = Inl KeyboardInterrupt
   \<and> fst (run_query_on_datasource (example_env ''cut'') example_query () (JStr ''db3''))
     = Inr (Some db3_result, PNone)
   \<and> run_query (example_env ''cut'') example_query ()
     = (Inl KeyboardInterrupt,
        [Connected (example_args ''cut''), Executed ''SELECT name AS datasource FROM tenants'',
         Closed (example_args ''cut''),
         Connected (example_args ''db1''), Executed ''SELECT * FROM users'',
         Closed (example_args ''db1''),
         Connected (example_args ''db6''), Executed ''SELECT * FROM users'',
         Cancelled (example_args ''db6''), Closed (example_args ''db6'')])"
  by code_simp

subsection \<open>No Result Set at all\<close>

text \<open>
  C10. When the discovery query succeeds and no target produces a Result Set, because it
  returned no target row or because every execution raised or returned a soft error,
  \<open>run_query\<close> returns nothing: it raises. The exception is \<open>UnboundLocalError\<close> for the
  local variable \<open>results\<close> unless an interrupt escaped from an execution.
\<close>

theorem unbound_results_raises:
  assumes disc: "fst (run_query_on_datasource env (discovery_query env) user (master_database env))
                   = Inr (Some datasources, PNone)"
    and none: "List.map_filter (target_result env query user) (rows datasources) = []"
  shows "(\<exists>e. fst (run_query env query user) = Inl e)
       \<and> (list_all (\<lambda>d. \<not> interrupted env query user d) (rows datasources)
            \<longrightarrow> fst (run_query env query user) = Inl (UnboundLocalError ''results''))"
proof -
  let ?init = "\<lparr>total_rows = [], results = None, error = PNone\<rparr>"
  obtain ev0 where d0: "run_query_on_datasource env (discovery_query env) user (master_database env)
             = (Inr (Some datasources, PNone), ev0)"
    using disc
    by (cases "run_query_on_datasource env (discovery_query env) user (master_database env)") auto
  have unbound: "results st = None"
    if "fst (fan_out env query user (rows datasources) ?init) = Inr st" for st
    using fan_out_state [OF that] none by simp
  have raised: "fst (run_query env query user) = Inl (UnboundLocalError ''results'')"
    if "fst (fan_out env query user (rows datasources) ?init) = Inr st" for st
    unfolding run_query_after_discovery [OF d0] using that unbound [OF that]
    by (auto simp add: aggregate_eq split: prod.splits)
  have first: "\<exists>e. fst (run_query env query user) = Inl e"
  proof (cases "fst (fan_out env query user (rows datasources) ?init)")
    case (Inl e)
    then show ?thesis
      unfolding run_query_after_discovery [OF d0] by (auto split: prod.splits)
  next
    case (Inr st)
    from raised [OF this] show ?thesis by blast
  qed
  have second: "fst (run_query env query user) = Inl (UnboundLocalError ''results'')"
    if "list_all (\<lambda>d. \<not> interrupted env query user d) (rows datasources)"
  proof -
    from fan_out_returns [OF that, of ?init]
    obtain st where "fst (fan_out env query user (rows datasources) ?init) = Inr st" ..
    from raised [OF this] show ?thesis .
  qed
  from first second show ?thesis by blast
qed

text \<open>
  On the example server: the directory \<open>nothing\<close> lists no target, and the three targets of
  the directory \<open>broken\<close> all fail.
\<close>

theorem unbound_results_raises_witness:
  "fst (run_query (example_env ''nothing'') example_query ()) = Inl (UnboundLocalError ''results'')
   \<and> fst (run_query (example_env ''broken'') example_query ()) = Inl (UnboundLocalError ''results'')"
proof -
  have d1: "fst (run_query_on_datasource (example_env ''nothing'')
                 (discovery_query (example_env ''nothing'')) ()
                 (master_database (example_env ''nothing'')))
               = Inr (Some (example_targets []), PNone)"
    by code_simp
  have n1: "List.map_filter (target_result (example_env ''nothing'') example_query ())
              (rows (example_targets [])) = []"
    by code_simp
  have u1: "list_all (\<lambda>d. \<not> interrupted (example_env ''nothing'') example_query () d)
              (rows (example_targets []))"
    by code_simp
  have d2: "fst (run_query_on_datasource (example_env ''broken'')
                 (discovery_query (example_env ''broken'')) ()
                 (master_database (example_env ''broken'')))
               = Inr (Some (example_targets [''db2'', ''db4'', ''gone'']), PNone)"
    by code_simp
  have n2: "List.map_filter (target_result (example_env ''broken'') example_query ())
              (rows (example_targets [''db2'', ''db4'', ''gone''])) = []"
    by code_simp
  have u2: "list_all (\<lambda>d. \<not> interrupted (example_env ''broken'') example_query () d)
              (rows (example_targets [''db2'', ''db4'', ''gone'']))"
    by code_simp
  from unbound_results_raises [OF d1 n1] u1 unbound_results_raises [OF d2 n2] u2
  show ?thesis by simp
qed

section \<open>Properties of the schema introspector\<close>

text \<open>
  C8. For a row whose namespace and table are strings, the qualified table name is the
  bare table name when the namespace equals the configured default database, and
  \<open>namespace.table\<close> otherwise; the Table Schema Entry that the row creates in an empty
  dictionary has that name and the row's column.
\<close>

theorem qualified_name_rule:
  assumes "conf_db (configuration env) = Some default_database"
    and "map_of row ''table_schema'' = Some (JStr namespace)"
    and "map_of row ''table_name'' = Some (JStr table)"
    and "map_of row ''column_name'' = Some column"
  shows "qualified_name env row =
           Inr (JStr (if namespace = default_database then table else namespace @ ''.'' @ table))
       \<and> get_tables_step env row [] =
           Inr [(JStr (if namespace = default_database then table else namespace @ ''.'' @ table),
                 \<lparr>name = JStr (if namespace = default_database then table
                                else namespace @ ''.'' @ table),
                  table_columns = [column]\<rparr>)]"
  using assms
  by (simp add: qualified_name_def get_tables_step_def getitem_def format_cell_def has_key_def)

text \<open>
  With the default database \<open>Sales\<close>: the row (Sales, Orders, id) gives \<open>Orders\<close>, the row
  (dbo2, Orders, id) gives \<open>dbo2.Orders\<close>.
\<close>

theorem qualified_name_rule_witness:
  "qualified_name (example_env ''master'')
     [(''table_schema'', JStr ''Sales''), (''table_name'', JStr ''Orders''),
      (''column_name'', JStr ''id'')] = Inr (JStr ''Orders'')
   \<and> qualified_name (example_env ''master'')
     [(''table_schema'', JStr ''dbo2''), (''table_name'', JStr ''Orders''),
      (''column_name'', JStr ''id'')] = Inr (JStr ''dbo2.Orders'')"
proof -
  let ?r1 = "[(''table_schema'', JStr ''Sales''), (''table_name'', JStr ''Orders''),
              (''column_name'', JStr ''id'')]"
  let ?r2 = "[(''table_schema'', JStr ''dbo2''), (''table_name'', JStr ''Orders''),
              (''column_name'', JStr ''id'')]"
  have db: "conf_db (configuration (example_env ''master'')) = Some ''Sales''"
    by (simp add: example_env_def example_configuration_def)
  have s1: "map_of ?r1 ''table_schema'' = Some (JStr ''Sales'')"
    and t1: "map_of ?r1 ''table_name'' = Some (JStr ''Orders'')"
    and c1: "map_of ?r1 ''column_name'' = Some (JStr ''id'')"
    by simp_all
  have s2: "map_of ?r2 ''table_schema'' = Some (JStr ''dbo2'')"
    and t2: "map_of ?r2 ''table_name'' = Some (JStr ''Orders'')"
    and c2: "map_of ?r2 ''column_name'' = Some (JStr ''id'')"
    by simp_all
  from qualified_name_rule [OF db s1 t1 c1] qualified_name_rule [OF db s2 t2 c2]
  show ?thesis by simp
qed

subsection \<open>The dictionary that the loop builds\<close>


















subsection \<open>Repeated introspection\<close>




end
